theory Spec2Isabelle
  imports Main
begin

section \<open>Values exchanged with the registry protocol library\<close>

text \<open>
  The package \<^verbatim>\<open>pkg/imgpkg/image\<close> is a facade over go-containerregistry and the Go
  standard library. Neither is part of the repository, so what they compute is taken as a
  parameter (the records \<open>platform\<close> and \<open>remote\<close> below); only their data, as far
  as \<^verbatim>\<open>registry.go\<close> inspects it, is given a shape here.
\<close>

text \<open>
  \<^verbatim>\<open>transport.ErrorCode\<close>: \<^verbatim>\<open>registry.go\<close> only ever compares a code with
  \<^verbatim>\<open>transport.UnauthorizedErrorCode\<close>, so the code is that constant or some other one.
\<close>

datatype ErrorCode = UnauthorizedErrorCode | OtherErrorCode string

record Diagnostic =
  Code :: ErrorCode
  Message :: string

text \<open>\<^verbatim>\<open>transport.Error\<close>: the list of sub-errors the registry reported.\<close>

record transport_Error =
  Errors :: "Diagnostic list"
  StatusCode :: int

text \<open>
  A non-nil Go \<^verbatim>\<open>error\<close>: either a \<^verbatim>\<open>*transport.Error\<close> (the only dynamic type that
  \<^verbatim>\<open>retry\<close> asserts on; the pointer is taken to be non-nil, as the library returns it)
  or an error of any other type, known by its message. The nil error is \<open>None\<close> of
  \<open>go_error option\<close>.
\<close>

datatype go_error = TransportError transport_Error | PlainError string

datatype authn_Authenticator =
    Basic string string
  | Bearer string
  | Anonymous
  | ChainAuth string

record name_Registry =
  RegistryStr :: string

record name_Repository =
  Registry :: name_Registry
  RepositoryStr :: string

record name_Reference =
  Context :: name_Repository
  Identifier :: string

record v1_Descriptor =
  MediaType :: string
  Size :: int
  Digest :: string

record remote_Descriptor =
  Descriptor :: v1_Descriptor
  Manifest :: string

datatype v1_Image = V1Image string

datatype v1_ImageIndex = V1ImageIndex string

section \<open>Configuration, \<^verbatim>\<open>registry.go\<close> lines 19-35\<close>

record RegistryOpts =
  CACertPaths :: "string list"
  VerifyCerts :: bool
  Username :: string
  Password :: string
  Token :: string
  Anon :: bool

record Registry =
  opts :: RegistryOpts

definition NewRegistry :: "RegistryOpts \<Rightarrow> Registry" where
  "NewRegistry os = \<lparr>opts = os\<rparr>"

section \<open>The platform\<close>

text \<open>
  A certificate is known by its encoding; a \<^verbatim>\<open>x509.CertPool\<close> is the list of the
  certificates it holds, in the order they were added.
\<close>

type_synonym x509_CertPool = "string list"

text \<open>
  What the standard library and the protocol library answer, without changing anything:
  \<^verbatim>\<open>x509.SystemCertPool()\<close>, \<^verbatim>\<open>ioutil.ReadFile\<close>, the PEM decoder behind
  \<^verbatim>\<open>AppendCertsFromPEM\<close>, \<^verbatim>\<open>authn.DefaultKeychain.Resolve\<close> and the
  \<^verbatim>\<open>Error()\<close> method of \<^verbatim>\<open>*transport.Error\<close>.
\<close>

record platform =
  SystemCertPool :: "go_error + x509_CertPool"
  ReadFile :: "string \<Rightarrow> go_error + string"
  decodePEM :: "string \<Rightarrow> string list"
  DefaultKeychain_Resolve :: "name_Registry \<Rightarrow> go_error + authn_Authenticator"
  transport_Error_Error :: "transport_Error \<Rightarrow> string"

definition NewCertPool :: x509_CertPool where
  "NewCertPool = []"

text \<open>
  \<^verbatim>\<open>(*CertPool).AddCert\<close>: a certificate that the pool already holds is not added again.
\<close>

definition AddCert :: "x509_CertPool \<Rightarrow> string \<Rightarrow> x509_CertPool" where
  "AddCert pool cert = (if cert \<in> set pool then pool else pool @ [cert])"

text \<open>
  \<^verbatim>\<open>(*CertPool).AppendCertsFromPEM\<close>: every certificate found in the bytes is added to
  the pool with \<^verbatim>\<open>AddCert\<close>, and the result says whether at least one certificate was
  found (also when the pool held it already).
\<close>

definition AppendCertsFromPEM :: "platform \<Rightarrow> x509_CertPool \<Rightarrow> string \<Rightarrow> x509_CertPool \<times> bool" where
  "AppendCertsFromPEM plat pool pemCerts =
     (foldl AddCert pool (decodePEM plat pemCerts), decodePEM plat pemCerts \<noteq> [])"

text \<open>The \<^verbatim>\<open>Error()\<close> method of an error value.\<close>

fun Error_str :: "platform \<Rightarrow> go_error \<Rightarrow> string" where
  "Error_str plat (TransportError t) = transport_Error_Error plat t"
| "Error_str plat (PlainError s) = s"

text \<open>
  \<^verbatim>\<open>fmt.Errorf(prefix + "%s", err)\<close>: the verb \<^verbatim>\<open>%s\<close> prints an error through its
  \<^verbatim>\<open>Error()\<close> method and a nil interface as \<^verbatim>\<open>%!s(<nil>)\<close>.
\<close>

definition Errorf :: "platform \<Rightarrow> string \<Rightarrow> go_error option \<Rightarrow> go_error" where
  "Errorf plat prefix err =
     PlainError (prefix @ (case err of None \<Rightarrow> ''%!s(<nil>)'' | Some e \<Rightarrow> Error_str plat e))"

section \<open>Credential resolution, lines 202-217\<close>

datatype customRegistryKeychain = CustomRegistryKeychain RegistryOpts

fun customRegistryKeychain_Resolve ::
  "platform \<Rightarrow> customRegistryKeychain \<Rightarrow> name_Registry \<Rightarrow> go_error + authn_Authenticator" where
  "customRegistryKeychain_Resolve plat (CustomRegistryKeychain k) res =
     (if length (Username k) > 0 then Inr (Basic (Username k) (Password k))
      else if length (Token k) > 0 then Inr (Bearer (Token k))
      else if Anon k then Inr Anonymous
      else DefaultKeychain_Resolve plat res)"

definition registryKeychain :: "Registry \<Rightarrow> customRegistryKeychain" where
  "registryKeychain i = CustomRegistryKeychain (opts i)"

section \<open>Transport building, lines 141-178\<close>

datatype proxy_func = ProxyFromEnvironment

record net_Dialer =
  Timeout :: int
  KeepAlive :: int
  DualStack :: bool

record tls_Config =
  RootCAs :: x509_CertPool
  InsecureSkipVerify :: bool

record http_Transport =
  Proxy :: proxy_func
  DialContext :: net_Dialer
  MaxIdleConns :: int
  IdleConnTimeout :: int
  TLSHandshakeTimeout :: int
  ResponseHeaderTimeout :: int
  ExpectContinueTimeout :: int
  TLSClientConfig :: tls_Config

text \<open>\<^verbatim>\<open>time.Second\<close>, in nanoseconds (a \<^verbatim>\<open>time.Duration\<close> counts nanoseconds).\<close>

definition Second :: int where
  "Second = 1000000000"

text \<open>
  The loop over \<^verbatim>\<open>CACertPaths\<close> (lines 148-154): it returns at the first path that
  cannot be read or whose bytes add no certificate.
\<close>

fun appendCACerts :: "platform \<Rightarrow> x509_CertPool \<Rightarrow> string list \<Rightarrow> go_error + x509_CertPool" where
  "appendCACerts plat pool [] = Inr pool"
| "appendCACerts plat pool (path # paths) =
     (case ReadFile plat path of
        Inl err \<Rightarrow>
          Inl (PlainError (''Reading CA certificates from '' @ [CHR 0x27] @ path @ [CHR 0x27]
                 @ '': '' @ Error_str plat err))
      | Inr certs \<Rightarrow>
          (case AppendCertsFromPEM plat pool certs of
             (pool', ok) \<Rightarrow>
               if \<not> ok then
                 Inl (PlainError (''Adding CA certificates from '' @ [CHR 0x27] @ path
                        @ [CHR 0x27] @ '': failed''))
               else appendCACerts plat pool' paths))"

definition newHTTPTransport :: "platform \<Rightarrow> Registry \<Rightarrow> go_error + http_Transport" where
  "newHTTPTransport plat i =
     (let pool = (case SystemCertPool plat of Inl err \<Rightarrow> NewCertPool | Inr p \<Rightarrow> p) in
      case (if length (CACertPaths (opts i)) > 0
            then appendCACerts plat pool (CACertPaths (opts i))
            else Inr pool) of
        Inl err \<Rightarrow> Inl err
      | Inr pool' \<Rightarrow>
          Inr \<lparr> Proxy = ProxyFromEnvironment,
                DialContext = \<lparr> Timeout = 30 * Second, KeepAlive = 30 * Second, DualStack = True \<rparr>,
                MaxIdleConns = 100,
                IdleConnTimeout = 90 * Second,
                TLSHandshakeTimeout = 10 * Second,
                ResponseHeaderTimeout = 10 * Second,
                ExpectContinueTimeout = 1 * Second,
                TLSClientConfig =
                  \<lparr> RootCAs = pool', InsecureSkipVerify = (VerifyCerts (opts i) = False) \<rparr> \<rparr>)"

section \<open>The retry policy, lines 180-200\<close>

text \<open>
  What a call of the facade does to the outside world is recorded as a list of events:
  \<open>Invoked r\<close> is one call into the protocol library (or one call of \<^verbatim>\<open>doFunc\<close>)
  that returned the error \<open>r\<close>, \<open>Slept d\<close> is one \<^verbatim>\<open>time.Sleep(d)\<close>.
\<close>

datatype event = Invoked "go_error option" | Slept int

text \<open>
  \<^verbatim>\<open>doFunc\<close> is a closure with effects: it takes the state of the world \<open>'w\<close> and
  returns its error with the new state. The loop variable \<open>i\<close> and \<^verbatim>\<open>lastErr\<close> are
  arguments; the result is the returned error, the world and the events from iteration
  \<open>i\<close> on.
\<close>

function retry_loop ::
  "platform \<Rightarrow> ('w \<Rightarrow> go_error option \<times> 'w) \<Rightarrow> int \<Rightarrow> go_error option \<Rightarrow> 'w
     \<Rightarrow> go_error option \<times> 'w \<times> event list" where
  "retry_loop plat doFunc i lastErr w =
     (if i < 5 then
        (case doFunc w of
           (None, w') \<Rightarrow> (None, w', [Invoked None])
         | (Some e, w') \<Rightarrow>
             (if (case e of
                    TransportError tranErr \<Rightarrow>
                      (if length (Errors tranErr) > 0
                       then Code (Errors tranErr ! 0) = UnauthorizedErrorCode
                       else False)
                  | PlainError _ \<Rightarrow> False)
              then (Some (Errorf plat ''Non-retryable error: '' (Some e)), w', [Invoked (Some e)])
              else
                (case retry_loop plat doFunc (i + 1) (Some e) w' of
                   (r, w'', evs) \<Rightarrow> (r, w'', Invoked (Some e) # Slept (1 * Second) # evs))))
      else (Some (Errorf plat ''Retried 5 times: '' lastErr), w, []))"
  by pat_completeness auto
termination
  by (relation "measure (\<lambda>(plat, doFunc, i, lastErr, w). nat (5 - i))") auto

definition Registry_retry ::
  "platform \<Rightarrow> Registry \<Rightarrow> ('w \<Rightarrow> go_error option \<times> 'w) \<Rightarrow> 'w
     \<Rightarrow> go_error option \<times> 'w \<times> event list" where
  "Registry_retry plat i doFunc w = retry_loop plat doFunc 0 None w"

section \<open>The protocol library and the facade, lines 37-139\<close>

datatype remote_Option =
    WithTransport http_Transport
  | WithAuth authn_Authenticator
  | WithAuthFromKeychain customRegistryKeychain

text \<open>
  The six operations of \<^verbatim>\<open>go-containerregistry/pkg/v1/remote\<close> that the facade calls.
  Each one may change the world (the registry, the network) and returns with it.
\<close>

record 'w remote =
  remote_Get :: "name_Reference \<Rightarrow> remote_Option list \<Rightarrow> 'w \<Rightarrow> (go_error + remote_Descriptor) \<times> 'w"
  remote_Image :: "name_Reference \<Rightarrow> remote_Option list \<Rightarrow> 'w \<Rightarrow> (go_error + v1_Image) \<times> 'w"
  remote_Index :: "name_Reference \<Rightarrow> remote_Option list \<Rightarrow> 'w \<Rightarrow> (go_error + v1_ImageIndex) \<times> 'w"
  remote_Write :: "name_Reference \<Rightarrow> v1_Image \<Rightarrow> remote_Option list \<Rightarrow> 'w \<Rightarrow> go_error option \<times> 'w"
  remote_WriteIndex ::
    "name_Reference \<Rightarrow> v1_ImageIndex \<Rightarrow> remote_Option list \<Rightarrow> 'w \<Rightarrow> go_error option \<times> 'w"
  remote_List :: "name_Repository \<Rightarrow> remote_Option list \<Rightarrow> 'w \<Rightarrow> (go_error + string list) \<times> 'w"

text \<open>The error of a library call that returns a value or an error.\<close>

definition err_of :: "go_error + 'a \<Rightarrow> go_error option" where
  "err_of r = (case r of Inl err \<Rightarrow> Some err | Inr _ \<Rightarrow> None)"

definition imageOpts :: "platform \<Rightarrow> Registry \<Rightarrow> go_error + remote_Option list" where
  "imageOpts plat i =
     (case newHTTPTransport plat i of
        Inl err \<Rightarrow> Inl err
      | Inr httpTran \<Rightarrow> Inr [WithTransport httpTran, WithAuthFromKeychain (registryKeychain i)])"

definition Registry_Generic ::
  "platform \<Rightarrow> 'w remote \<Rightarrow> Registry \<Rightarrow> name_Reference \<Rightarrow> 'w
     \<Rightarrow> (go_error + v1_Descriptor) \<times> 'w \<times> event list" where
  "Registry_Generic plat lib i ref w =
     (case imageOpts plat i of
        Inl err \<Rightarrow> (Inl err, w, [])
      | Inr os \<Rightarrow>
          (case remote_Get lib ref os w of
             (Inl err, w') \<Rightarrow> (Inl err, w', [Invoked (Some err)])
           | (Inr desc, w') \<Rightarrow> (Inr (Descriptor desc), w', [Invoked None])))"

definition Registry_Image ::
  "platform \<Rightarrow> 'w remote \<Rightarrow> Registry \<Rightarrow> name_Reference \<Rightarrow> 'w
     \<Rightarrow> (go_error + v1_Image) \<times> 'w \<times> event list" where
  "Registry_Image plat lib i ref w =
     (case imageOpts plat i of
        Inl err \<Rightarrow> (Inl err, w, [])
      | Inr os \<Rightarrow>
          (case remote_Image lib ref os w of (r, w') \<Rightarrow> (r, w', [Invoked (err_of r)])))"

definition Registry_WriteImage ::
  "platform \<Rightarrow> 'w remote \<Rightarrow> Registry \<Rightarrow> name_Reference \<Rightarrow> v1_Image \<Rightarrow> 'w
     \<Rightarrow> go_error option \<times> 'w \<times> event list" where
  "Registry_WriteImage plat lib i ref img w =
     (case newHTTPTransport plat i of
        Inl err \<Rightarrow> (Some err, w, [])
      | Inr httpTran \<Rightarrow>
          (case customRegistryKeychain_Resolve plat (registryKeychain i) (Registry (Context ref)) of
             Inl err \<Rightarrow> (Some (Errorf plat ''Getting auth details: '' (Some err)), w, [])
           | Inr auth \<Rightarrow>
               (case Registry_retry plat i
                       (remote_Write lib ref img [WithAuth auth, WithTransport httpTran]) w of
                  (Some err, w', evs) \<Rightarrow> (Some (Errorf plat ''Writing image: '' (Some err)), w', evs)
                | (None, w', evs) \<Rightarrow> (None, w', evs))))"

definition Registry_Index ::
  "platform \<Rightarrow> 'w remote \<Rightarrow> Registry \<Rightarrow> name_Reference \<Rightarrow> 'w
     \<Rightarrow> (go_error + v1_ImageIndex) \<times> 'w \<times> event list" where
  "Registry_Index plat lib i ref w =
     (case imageOpts plat i of
        Inl err \<Rightarrow> (Inl err, w, [])
      | Inr os \<Rightarrow>
          (case remote_Index lib ref os w of (r, w') \<Rightarrow> (r, w', [Invoked (err_of r)])))"

definition Registry_WriteIndex ::
  "platform \<Rightarrow> 'w remote \<Rightarrow> Registry \<Rightarrow> name_Reference \<Rightarrow> v1_ImageIndex \<Rightarrow> 'w
     \<Rightarrow> go_error option \<times> 'w \<times> event list" where
  "Registry_WriteIndex plat lib i ref idx w =
     (case newHTTPTransport plat i of
        Inl err \<Rightarrow> (Some err, w, [])
      | Inr httpTran \<Rightarrow>
          (case customRegistryKeychain_Resolve plat (registryKeychain i) (Registry (Context ref)) of
             Inl err \<Rightarrow> (Some (Errorf plat ''Getting auth details: '' (Some err)), w, [])
           | Inr auth \<Rightarrow>
               (case Registry_retry plat i
                       (remote_WriteIndex lib ref idx [WithAuth auth, WithTransport httpTran]) w of
                  (Some err, w', evs) \<Rightarrow>
                    (Some (Errorf plat ''Writing image index: '' (Some err)), w', evs)
                | (None, w', evs) \<Rightarrow> (None, w', evs))))"

definition Registry_ListTags ::
  "platform \<Rightarrow> 'w remote \<Rightarrow> Registry \<Rightarrow> name_Repository \<Rightarrow> 'w
     \<Rightarrow> (go_error + string list) \<times> 'w \<times> event list" where
  "Registry_ListTags plat lib i repo w =
     (case newHTTPTransport plat i of
        Inl err \<Rightarrow> (Inl err, w, [])
      | Inr httpTran \<Rightarrow>
          (case customRegistryKeychain_Resolve plat (registryKeychain i) (Registry repo) of
             Inl err \<Rightarrow> (Inl (Errorf plat ''Getting auth details: '' (Some err)), w, [])
           | Inr auth \<Rightarrow>
               (case remote_List lib repo [WithAuth auth, WithTransport httpTran] w of
                  (r, w') \<Rightarrow> (r, w', [Invoked (err_of r)]))))"

section \<open>Notions used to state the properties\<close>

text \<open>
  The short-circuit condition in the words of the specification: a protocol-transport
  error whose first reported sub-error carries the unauthorized code.
\<close>

fun unauthorized :: "go_error \<Rightarrow> bool" where
  "unauthorized (TransportError t) =
     (case Errors t of [] \<Rightarrow> False | d # _ \<Rightarrow> Code d = UnauthorizedErrorCode)"
| "unauthorized (PlainError _) = False"

text \<open>The attempts of a run, in order, each with the error it returned.\<close>

fun attempts :: "event list \<Rightarrow> go_error option list" where
  "attempts [] = []"
| "attempts (Invoked r # evs) = r # attempts evs"
| "attempts (Slept d # evs) = attempts evs"

text \<open>The sleeps of a run, in order, each with its duration.\<close>

fun sleeps :: "event list \<Rightarrow> int list" where
  "sleeps [] = []"
| "sleeps (Invoked r # evs) = sleeps evs"
| "sleeps (Slept d # evs) = d # sleeps evs"

text \<open>What an operation returns when it is called \<open>n\<close> times in a row from the world \<open>w\<close>.\<close>

fun outcomes :: "('w \<Rightarrow> go_error option \<times> 'w) \<Rightarrow> 'w \<Rightarrow> nat \<Rightarrow> go_error option list" where
  "outcomes doFunc w 0 = []"
| "outcomes doFunc w (Suc n) = (case doFunc w of (r, w') \<Rightarrow> r # outcomes doFunc w' n)"

text \<open>
  The certificates that a path of \<^verbatim>\<open>CACertPaths\<close> contributes: those decoded from the
  bytes of the file, none when the file cannot be read.
\<close>

definition certsAt :: "platform \<Rightarrow> string \<Rightarrow> string list" where
  "certsAt plat path = (case ReadFile plat path of Inl _ \<Rightarrow> [] | Inr bytes \<Rightarrow> decodePEM plat bytes)"

section \<open>Example inputs\<close>

text \<open>
  A platform whose system trust store holds one root and whose default credential chain
  knows no credentials.
\<close>

definition plat0 :: platform where
  "plat0 = \<lparr> SystemCertPool = Inr [''system-root''],
             ReadFile = (\<lambda>path. if path = ''ca.pem'' then Inr ''PEM(corp-root)''
                                  else Inl (PlainError ''no such file'')),
             decodePEM = (\<lambda>bytes. if bytes = ''PEM(corp-root)'' then [''corp-root''] else []),
             DefaultKeychain_Resolve = (\<lambda>res. Inl (PlainError ''no credentials'')),
             transport_Error_Error = (\<lambda>t. ''registry said no'') \<rparr>"

text \<open>
  A platform without a system trust store, with a file that holds no certificate, and whose
  default credential chain answers for every host.
\<close>

definition plat1 :: platform where
  "plat1 = \<lparr> SystemCertPool = Inl (PlainError ''system roots unavailable''),
             ReadFile = (\<lambda>path. if path = ''ca.pem'' then Inr ''PEM(corp-root)''
                                  else if path = ''notes.txt'' then Inr ''hello''
                                  else Inl (PlainError ''no such file'')),
             decodePEM = (\<lambda>bytes. if bytes = ''PEM(corp-root)'' then [''corp-root''] else []),
             DefaultKeychain_Resolve = (\<lambda>res. Inr (ChainAuth (RegistryStr res))),
             transport_Error_Error = (\<lambda>t. ''registry said no'') \<rparr>"

text \<open>The zero value of \<^verbatim>\<open>RegistryOpts\<close>: what Go gives a struct whose fields are not set.\<close>

definition zero_RegistryOpts :: RegistryOpts where
  "zero_RegistryOpts = \<lparr> CACertPaths = [], VerifyCerts = False, Username = [], Password = [],
                         Token = [], Anon = False \<rparr>"

definition no_auth :: RegistryOpts where
  "no_auth = \<lparr> CACertPaths = [], VerifyCerts = True, Username = [], Password = [],
               Token = [], Anon = False \<rparr>"

definition reg0 :: Registry where
  "reg0 = NewRegistry \<lparr> CACertPaths = [''ca.pem''], VerifyCerts = True, Username = ''u'',
                        Password = ''p'', Token = ''t'', Anon = True \<rparr>"

definition host0 :: name_Registry where
  "host0 = \<lparr> RegistryStr = ''registry.example'' \<rparr>"

definition ref0 :: name_Reference where
  "ref0 = \<lparr> Context = \<lparr> Registry = host0, RepositoryStr = ''app'' \<rparr>, Identifier = ''v1'' \<rparr>"

definition desc0 :: remote_Descriptor where
  "desc0 = \<lparr> Descriptor = \<lparr> MediaType = ''application/vnd.oci.image.manifest.v1+json'',
                             Size = 7, Digest = ''sha256:0'' \<rparr>, Manifest = ''{}'' \<rparr>"

definition denied :: go_error where
  "denied = TransportError \<lparr> Errors = [\<lparr> Code = UnauthorizedErrorCode, Message = ''denied'' \<rparr>],
                             StatusCode = 401 \<rparr>"

definition busy :: go_error where
  "busy = TransportError \<lparr> Errors = [\<lparr> Code = OtherErrorCode ''TOOMANYREQUESTS'',
                                       Message = ''slow down'' \<rparr>],
                           StatusCode = 429 \<rparr>"

definition reset :: go_error where
  "reset = PlainError ''connection reset''"

text \<open>
  Example operations. Their world is the number of calls made so far: \<open>fails_until n e\<close>
  fails with \<open>e\<close> on its first \<open>n\<close> calls and succeeds afterwards, \<open>denied_second\<close>
  always fails, with an unauthorized transport error on its second call, and
  \<open>denied_second_then_ok\<close> fails on its first four calls, with an unauthorized transport
  error on the second, and succeeds from the fifth call on.
\<close>

definition fails_until :: "nat \<Rightarrow> go_error \<Rightarrow> nat \<Rightarrow> go_error option \<times> nat" where
  "fails_until n e w = (if w < n then Some e else None, Suc w)"


definition denied_second_then_ok :: "nat \<Rightarrow> go_error option \<times> nat" where
  "denied_second_then_ok w =
     (if w = 1 then Some denied else if w < 4 then Some reset else None, Suc w)"

text \<open>
  An example protocol library. As go-containerregistry does, its read operations take the
  authenticator from the options they are given, asking the keychain of
  \<^verbatim>\<open>WithAuthFromKeychain\<close> for it, and return the keychain's error as it is, before
  touching the network. Its writes and its tag listing fail.
\<close>

fun auth_from_options ::
  "platform \<Rightarrow> remote_Option list \<Rightarrow> name_Registry \<Rightarrow> go_error + authn_Authenticator" where
  "auth_from_options plat [] res = Inr Anonymous"
| "auth_from_options plat (WithAuth a # os) res = Inr a"
| "auth_from_options plat (WithAuthFromKeychain kc # os) res =
     customRegistryKeychain_Resolve plat kc res"
| "auth_from_options plat (WithTransport t # os) res = auth_from_options plat os res"

definition lib0 :: "platform \<Rightarrow> nat remote" where
  "lib0 plat =
     \<lparr> remote_Get = (\<lambda>ref os w.
         case auth_from_options plat os (Registry (Context ref)) of
           Inl err \<Rightarrow> (Inl err, w) | Inr a \<Rightarrow> (Inr desc0, Suc w)),
       remote_Image = (\<lambda>ref os w.
         case auth_from_options plat os (Registry (Context ref)) of
           Inl err \<Rightarrow> (Inl err, w) | Inr a \<Rightarrow> (Inr (V1Image ''image''), Suc w)),
       remote_Index = (\<lambda>ref os w.
         case auth_from_options plat os (Registry (Context ref)) of
           Inl err \<Rightarrow> (Inl err, w) | Inr a \<Rightarrow> (Inr (V1ImageIndex ''index''), Suc w)),
       remote_Write = (\<lambda>ref img os w. (Some reset, Suc w)),
       remote_WriteIndex = (\<lambda>ref idx os w. fails_until 4 busy w),
       remote_List = (\<lambda>repo os w. (Inl reset, Suc w)) \<rparr>"

lemmas example_defs = plat0_def plat1_def reg0_def no_auth_def zero_RegistryOpts_def host0_def
  ref0_def lib0_def
  denied_def busy_def reset_def fails_until_def desc0_def NewRegistry_def registryKeychain_def

section \<open>One iteration of the retry loop\<close>

declare retry_loop.simps [simp del]

lemma short_circuit_test:
  "(case e of
      TransportError tranErr \<Rightarrow>
        (if length (Errors tranErr) > 0
         then Code (Errors tranErr ! 0) = UnauthorizedErrorCode
         else False)
    | PlainError _ \<Rightarrow> False) = unauthorized e"
  by (cases e) (auto split: list.splits)

lemma retry_loop_done:
  "\<not> i < 5 \<Longrightarrow> retry_loop plat doFunc i lastErr w
     = (Some (Errorf plat ''Retried 5 times: '' lastErr), w, [])"
  by (subst retry_loop.simps) simp

lemma retry_loop_success:
  "i < 5 \<Longrightarrow> doFunc w = (None, w') \<Longrightarrow>
   retry_loop plat doFunc i lastErr w = (None, w', [Invoked None])"
  by (subst retry_loop.simps) simp

lemma retry_loop_unauthorized:
  "i < 5 \<Longrightarrow> doFunc w = (Some e, w') \<Longrightarrow> unauthorized e \<Longrightarrow>
   retry_loop plat doFunc i lastErr w
     = (Some (Errorf plat ''Non-retryable error: '' (Some e)), w', [Invoked (Some e)])"
  by (subst retry_loop.simps) (simp add: short_circuit_test)

lemma retry_loop_again:
  "i < 5 \<Longrightarrow> doFunc w = (Some e, w') \<Longrightarrow> \<not> unauthorized e \<Longrightarrow>
   retry_loop plat doFunc i lastErr w
     = (case retry_loop plat doFunc (i + 1) (Some e) w' of
          (r, w'', evs) \<Rightarrow> (r, w'', Invoked (Some e) # Slept (1 * Second) # evs))"
  by (subst retry_loop.simps) (simp add: short_circuit_test)

text \<open>Case analysis of one iteration.\<close>

lemma retry_loop_cases:
  assumes "retry_loop plat doFunc i lastErr w = (r, w', evs)"
  obtains
    (exhausted) "\<not> i < 5" "r = Some (Errorf plat ''Retried 5 times: '' lastErr)" "w' = w" "evs = []"
  | (success) "i < 5" "doFunc w = (None, w')" "r = None" "evs = [Invoked None]"
  | (unauthorized) e where "i < 5" "doFunc w = (Some e, w')" "unauthorized e"
      "r = Some (Errorf plat ''Non-retryable error: '' (Some e))" "evs = [Invoked (Some e)]"
  | (again) e w1 evs1 where "i < 5" "doFunc w = (Some e, w1)" "\<not> unauthorized e"
      "retry_loop plat doFunc (i + 1) (Some e) w1 = (r, w', evs1)"
      "evs = Invoked (Some e) # Slept (1 * Second) # evs1"
proof (cases "i < 5")
  case False
  with assms retry_loop_done[OF False, of plat doFunc lastErr w] show ?thesis
    by (intro exhausted) auto
next
  case True
  obtain a w1 where dw: "doFunc w = (a, w1)" by (cases "doFunc w")
  show ?thesis
  proof (cases a)
    case None
    with assms True dw retry_loop_success[of i doFunc w w1 plat lastErr] show ?thesis
      by (intro success) auto
  next
    case (Some e)
    show ?thesis
    proof (cases "unauthorized e")
      case True
      with assms \<open>i < 5\<close> dw Some retry_loop_unauthorized[of i doFunc w e w1 plat lastErr]
      show ?thesis by (intro unauthorized[of e]) auto
    next
      case False
      obtain r1 w2 evs1 where rec: "retry_loop plat doFunc (i + 1) (Some e) w1 = (r1, w2, evs1)"
        by (cases "retry_loop plat doFunc (i + 1) (Some e) w1")
      with assms \<open>i < 5\<close> dw Some False retry_loop_again[of i doFunc w e w1 plat lastErr]
      show ?thesis by (intro again[of e w1 evs1]) auto
    qed
  qed
qed

section \<open>What a run of the retry loop looks like\<close>


lemma retry_loop_attempts_bound:
  "retry_loop plat doFunc i lastErr w = (r, w', evs) \<Longrightarrow> length (attempts evs) \<le> nat (5 - i)"
proof (induction plat doFunc i lastErr w arbitrary: r w' evs rule: retry_loop.induct)
  case (1 plat doFunc i lastErr w)
  from "1.prems" show ?case
  proof (cases rule: retry_loop_cases)
    case (again e w1 evs1)
    have "length (attempts evs1) \<le> nat (5 - (i + 1))"
      using "1.IH"[OF again(1) again(2)[symmetric] refl _ again(4)] again(3)
      by (simp add: short_circuit_test)
    with again show ?thesis by simp
  qed auto
qed


lemma retry_loop_succeeds_shape:
  "retry_loop plat doFunc i lastErr w = (r, w', evs) \<Longrightarrow> attempts evs = map Some es @ [None] \<Longrightarrow>
   r = None \<and> evs = concat (map (\<lambda>e. [Invoked (Some e), Slept (1 * Second)]) es) @ [Invoked None]"
proof (induction plat doFunc i lastErr w arbitrary: r w' evs es rule: retry_loop.induct)
  case (1 plat doFunc i lastErr w)
  from "1.prems"(1) show ?case
  proof (cases rule: retry_loop_cases)
    case exhausted
    with "1.prems" show ?thesis by simp
  next
    case success
    with "1.prems" show ?thesis by (cases es) auto
  next
    case (unauthorized e)
    with "1.prems" show ?thesis by (cases es) auto
  next
    case (again e0 w1 evs1)
    from again "1.prems"(2) obtain es' where es: "es = e0 # es'"
      and att: "attempts evs1 = map Some es' @ [None]"
      by (cases es) auto
    have "r = None \<and> evs1 = concat (map (\<lambda>e. [Invoked (Some e), Slept (1 * Second)]) es') @ [Invoked None]"
      using "1.IH"[OF again(1) again(2)[symmetric] refl _ again(4) att] again(3)
      by (simp add: short_circuit_test)
    with again es show ?thesis by simp
  qed
qed

lemma retry_loop_all_fail:
  "outcomes doFunc w (length es) = map Some es \<Longrightarrow> \<forall>e\<in>set es. \<not> unauthorized e \<Longrightarrow>
   i + int (length es) = 5 \<Longrightarrow>
   \<exists>w'. retry_loop plat doFunc i lastErr w =
     (Some (Errorf plat ''Retried 5 times: '' (if es = [] then lastErr else Some (last es))), w',
      concat (map (\<lambda>e. [Invoked (Some e), Slept (1 * Second)]) es))"
proof (induction es arbitrary: i w lastErr)
  case Nil
  then show ?case by (simp add: retry_loop_done)
next
  case (Cons e es)
  obtain a w1 where dw: "doFunc w = (a, w1)" by (cases "doFunc w")
  with Cons.prems(1) have a: "a = Some e" and rest: "outcomes doFunc w1 (length es) = map Some es"
    by auto
  from Cons.prems have i: "i < 5" and ne: "\<not> unauthorized e" and i1: "(i + 1) + int (length es) = 5"
    by auto
  from Cons.IH[OF rest _ i1, of "Some e"] Cons.prems(2)
  obtain w' where "retry_loop plat doFunc (i + 1) (Some e) w1 =
     (Some (Errorf plat ''Retried 5 times: '' (if es = [] then Some e else Some (last es))), w',
      concat (map (\<lambda>e. [Invoked (Some e), Slept (1 * Second)]) es))"
    by auto
  with retry_loop_again[of i doFunc w e w1 plat lastErr] i dw a ne show ?case
    by auto
qed


text \<open>
  The attempts of a run are the first results of the operation called in a row: the loop
  calls nothing else and skips no call.
\<close>

lemma retry_loop_attempts_prefix:
  "retry_loop plat doFunc i lastErr w = (r, w', evs) \<Longrightarrow>
   attempts evs = take (length (attempts evs)) (outcomes doFunc w (nat (5 - i)))"
proof (induction plat doFunc i lastErr w arbitrary: r w' evs rule: retry_loop.induct)
  case (1 plat doFunc i lastErr w)
  from "1.prems"(1) show ?case
  proof (cases rule: retry_loop_cases)
    case exhausted
    then show ?thesis by simp
  next
    case success
    then obtain n where "nat (5 - i) = Suc n" by (cases "nat (5 - i)") auto
    with success show ?thesis by simp
  next
    case (unauthorized e0)
    then obtain n where "nat (5 - i) = Suc n" by (cases "nat (5 - i)") auto
    with unauthorized show ?thesis by simp
  next
    case (again e0 w1 evs1)
    have n: "nat (5 - i) = Suc (nat (5 - (i + 1)))" using again(1) by simp
    have "attempts evs1 = take (length (attempts evs1)) (outcomes doFunc w1 (nat (5 - (i + 1))))"
      using "1.IH"[OF again(1) again(2)[symmetric] refl _ again(4)] again(3)
      by (simp add: short_circuit_test)
    with again show ?thesis by (simp add: n del: outcomes.simps) (simp)
  qed
qed

lemma length_outcomes: "length (outcomes doFunc w n) = n"
  by (induction n arbitrary: w) (auto split: prod.splits)

lemma retry_loop_again_snd:
  "i < 5 \<Longrightarrow> fst (doFunc w) = Some e \<Longrightarrow> \<not> unauthorized e \<Longrightarrow>
   retry_loop plat doFunc i lastErr w
     = (case retry_loop plat doFunc (i + 1) (Some e) (snd (doFunc w)) of
          (r, w'', evs) \<Rightarrow> (r, w'', Invoked (Some e) # Slept (1 * Second) # evs))"
  using retry_loop_again[of i doFunc w e "snd (doFunc w)" plat lastErr]
  by (cases "doFunc w") simp

lemma retry_loop_success_snd:
  "i < 5 \<Longrightarrow> fst (doFunc w) = None \<Longrightarrow>
   retry_loop plat doFunc i lastErr w = (None, snd (doFunc w), [Invoked None])"
  using retry_loop_success[of i doFunc w "snd (doFunc w)" plat lastErr]
  by (cases "doFunc w") simp

text \<open>
  An operation whose first four calls fail, none with an unauthorized transport error, and
  whose fifth call succeeds, is attempted five times.
\<close>

lemma retry_attempts_fifth_succeeds:
  assumes "outcomes doFunc w 5 = [Some e1, Some e2, Some e3, Some e4, None]"
    and "\<forall>e\<in>set [e1, e2, e3, e4]. \<not> unauthorized e"
  shows "attempts (snd (snd (Registry_retry plat i doFunc w)))
           = [Some e1, Some e2, Some e3, Some e4, None]"
  using assms
  by (auto simp: eval_nat_numeral Registry_retry_def retry_loop_again_snd retry_loop_success_snd
        split: prod.splits)

section \<open>The retry policy\<close>



text \<open>
  C3. A run of the retry policy makes at most 5 attempts. When the operation fails on each
  of its 5 calls and none of the failures is an unauthorized transport error, the run makes
  the 5 attempts and returns the error \<^verbatim>\<open>Retried 5 times: <message of the 5th failure>\<close>.
\<close>

theorem retry_gives_up_after_five:
  "length (attempts (snd (snd (Registry_retry plat i doFunc w)))) \<le> 5 \<and>
   (outcomes doFunc w 5 = map Some es \<and> (\<forall>e\<in>set es. \<not> unauthorized e) \<longrightarrow>
      fst (Registry_retry plat i doFunc w)
        = Some (PlainError (''Retried 5 times: '' @ Error_str plat (es ! 4)))
      \<and> attempts (snd (snd (Registry_retry plat i doFunc w))) = map Some es)"
proof (intro conjI impI)
  obtain r w' evs where run: "retry_loop plat doFunc 0 None w = (r, w', evs)"
    by (cases "retry_loop plat doFunc 0 None w")
  from retry_loop_attempts_bound[OF run] run
  show "length (attempts (snd (snd (Registry_retry plat i doFunc w)))) \<le> 5"
    by (simp add: Registry_retry_def)
next
  assume h: "outcomes doFunc w 5 = map Some es \<and> (\<forall>e\<in>set es. \<not> unauthorized e)"
  then have len: "length es = 5"
    using length_outcomes[of doFunc w 5] by simp
  then have ne: "es \<noteq> []" by auto
  have l: "last es = es ! 4" using last_conv_nth[OF ne] len by simp
  from h len have "outcomes doFunc w (length es) = map Some es" by simp
  from retry_loop_all_fail[OF this, of 0 plat None] h len ne l
  obtain w' where run: "retry_loop plat doFunc 0 None w =
     (Some (Errorf plat ''Retried 5 times: '' (Some (es ! 4))), w',
      concat (map (\<lambda>e. [Invoked (Some e), Slept (1 * Second)]) es))"
    by auto
  have att: "attempts (concat (map (\<lambda>e. [Invoked (Some e), Slept (1 * Second)]) xs)) = map Some xs"
    for xs by (induction xs) auto
  from run show "fst (Registry_retry plat i doFunc w)
        = Some (PlainError (''Retried 5 times: '' @ Error_str plat (es ! 4)))"
    by (simp add: Registry_retry_def Errorf_def)
  from run att show "attempts (snd (snd (Registry_retry plat i doFunc w))) = map Some es"
    by (simp add: Registry_retry_def)
qed

theorem retry_gives_up_after_five_witness:
  "outcomes (fails_until 7 reset) 0 5 = map Some [reset, reset, reset, reset, reset]
   \<and> \<not> unauthorized reset
   \<and> fst (Registry_retry plat0 reg0 (fails_until 7 reset) 0)
        = Some (PlainError ''Retried 5 times: connection reset'')
   \<and> length (attempts (snd (snd (Registry_retry plat0 reg0 (fails_until 7 reset) 0)))) = 5"
proof -
  have o: "outcomes (fails_until 7 reset) 0 5 = map Some [reset, reset, reset, reset, reset]"
    by (simp add: eval_nat_numeral fails_until_def)
  have u: "\<forall>e\<in>set [reset, reset, reset, reset, reset]. \<not> unauthorized e"
    by (simp add: reset_def)
  from retry_gives_up_after_five[of plat0 reg0 "fails_until 7 reset" 0 "[reset, reset, reset, reset, reset]"]
    o u
  show ?thesis by (simp add: reset_def)
qed

text \<open>
  C5, as stated, fails when one of the four failures is an unauthorized transport error: the
  operation below fails on its first four calls and succeeds on the fifth, but its second
  failure is unauthorized, so the run ends there with \<^verbatim>\<open>Non-retryable error\<close> after two
  attempts and one sleep.
\<close>

theorem retry_fifth_attempt_counterexample:
  "outcomes denied_second_then_ok 0 5
     = [Some reset, Some denied, Some reset, Some reset, None]
   \<and> Registry_retry plat0 reg0 denied_second_then_ok 0
     = (Some (PlainError ''Non-retryable error: registry said no''), 2,
        [Invoked (Some reset), Slept 1000000000, Invoked (Some denied)])
   \<and> fst (Registry_retry plat0 reg0 denied_second_then_ok 0) \<noteq> None
   \<and> sleeps (snd (snd (Registry_retry plat0 reg0 denied_second_then_ok 0))) = [1000000000]"
proof -
  have o: "outcomes denied_second_then_ok 0 5
     = [Some reset, Some denied, Some reset, Some reset, None]"
    by (simp add: eval_nat_numeral denied_second_then_ok_def)
  have run: "Registry_retry plat0 reg0 denied_second_then_ok 0
     = (Some (PlainError ''Non-retryable error: registry said no''), 2,
        [Invoked (Some reset), Slept 1000000000, Invoked (Some denied)])"
    by (simp add: Registry_retry_def retry_loop.simps denied_second_then_ok_def denied_def
          reset_def Errorf_def plat0_def Second_def)
  from o run show ?thesis by simp
qed

text \<open>
  C5, amended. For every operation whose first four calls fail, none of them with an
  unauthorized transport error, and whose fifth call succeeds, the retry policy returns
  success and its events are the five attempts with exactly one sleep of one second
  (1000000000 ns) between each two consecutive attempts: four sleeps, all of the same length,
  none after the success.
\<close>

theorem retry_fifth_attempt_succeeds:
  assumes "outcomes doFunc w 5 = [Some e1, Some e2, Some e3, Some e4, None]"
    and "\<forall>e\<in>set [e1, e2, e3, e4]. \<not> unauthorized e"
  shows "fst (Registry_retry plat i doFunc w) = None \<and>
    snd (snd (Registry_retry plat i doFunc w))
      = [Invoked (Some e1), Slept 1000000000, Invoked (Some e2), Slept 1000000000,
         Invoked (Some e3), Slept 1000000000, Invoked (Some e4), Slept 1000000000,
         Invoked None] \<and>
    sleeps (snd (snd (Registry_retry plat i doFunc w)))
      = [1000000000, 1000000000, 1000000000, 1000000000]"
proof -
  obtain r w' evs where run: "retry_loop plat doFunc 0 None w = (r, w', evs)"
    by (cases "retry_loop plat doFunc 0 None w")
  have "attempts evs = [Some e1, Some e2, Some e3, Some e4, None]"
    using retry_attempts_fifth_succeeds[OF assms, of plat i] run
    by (simp add: Registry_retry_def)
  then have "attempts evs = map Some [e1, e2, e3, e4] @ [None]"
    by simp
  from retry_loop_succeeds_shape[OF run this] run show ?thesis
    by (simp add: Registry_retry_def Second_def)
qed

theorem retry_fifth_attempt_succeeds_witness:
  "outcomes (fails_until 4 busy) 0 5 = [Some busy, Some busy, Some busy, Some busy, None]
   \<and> \<not> unauthorized busy
   \<and> fst (Registry_retry plat0 reg0 (fails_until 4 busy) 0) = None
   \<and> snd (snd (Registry_retry plat0 reg0 (fails_until 4 busy) 0))
       = [Invoked (Some busy), Slept 1000000000, Invoked (Some busy), Slept 1000000000,
          Invoked (Some busy), Slept 1000000000, Invoked (Some busy), Slept 1000000000,
          Invoked None]
   \<and> sleeps (snd (snd (Registry_retry plat0 reg0 (fails_until 4 busy) 0)))
       = [1000000000, 1000000000, 1000000000, 1000000000]"
proof -
  have o: "outcomes (fails_until 4 busy) 0 5
             = [Some busy, Some busy, Some busy, Some busy, None]"
    by (simp add: eval_nat_numeral fails_until_def)
  have u: "\<forall>e\<in>set [busy, busy, busy, busy]. \<not> unauthorized e"
    by (simp add: busy_def)
  from retry_fifth_attempt_succeeds[OF o u, of plat0 reg0] o u show ?thesis by simp
qed

text \<open>
  C9. When the operation fails on each of its 5 calls and none of the failures is an
  unauthorized transport error, the run sleeps one second after every failed attempt, also
  after the fifth one, before it returns the exhaustion error: 5 sleeps.
\<close>

theorem retry_sleeps_after_last_attempt:
  assumes "outcomes doFunc w 5 = [Some e1, Some e2, Some e3, Some e4, Some e5]"
    and "\<forall>e\<in>set [e1, e2, e3, e4, e5]. \<not> unauthorized e"
  shows "snd (snd (Registry_retry plat i doFunc w))
      = [Invoked (Some e1), Slept 1000000000, Invoked (Some e2), Slept 1000000000,
         Invoked (Some e3), Slept 1000000000, Invoked (Some e4), Slept 1000000000,
         Invoked (Some e5), Slept 1000000000]
    \<and> sleeps (snd (snd (Registry_retry plat i doFunc w)))
      = [1000000000, 1000000000, 1000000000, 1000000000, 1000000000]
    \<and> fst (Registry_retry plat i doFunc w)
      = Some (PlainError (''Retried 5 times: '' @ Error_str plat e5))"
proof -
  have "outcomes doFunc w (length [e1, e2, e3, e4, e5]) = map Some [e1, e2, e3, e4, e5]"
    using assms(1) by (simp add: eval_nat_numeral del: outcomes.simps)
  from retry_loop_all_fail[OF this assms(2), of 0 plat None]
  show ?thesis by (auto simp: Registry_retry_def Second_def Errorf_def)
qed

theorem retry_sleeps_after_last_attempt_witness:
  "outcomes (fails_until 5 busy) 0 5 = [Some busy, Some busy, Some busy, Some busy, Some busy]
   \<and> \<not> unauthorized busy
   \<and> sleeps (snd (snd (Registry_retry plat0 reg0 (fails_until 5 busy) 0)))
      = [1000000000, 1000000000, 1000000000, 1000000000, 1000000000]
   \<and> last (snd (snd (Registry_retry plat0 reg0 (fails_until 5 busy) 0))) = Slept 1000000000"
proof -
  have o: "outcomes (fails_until 5 busy) 0 5
             = [Some busy, Some busy, Some busy, Some busy, Some busy]"
    by (simp add: eval_nat_numeral fails_until_def)
  have u: "\<forall>e\<in>set [busy, busy, busy, busy, busy]. \<not> unauthorized e"
    by (simp add: busy_def)
  from retry_sleeps_after_last_attempt[OF o u, of plat0 reg0] o u show ?thesis by simp
qed



section \<open>Transport building\<close>

lemma set_foldl_AddCert: "set (foldl AddCert pool certs) = set pool \<union> set certs"
  by (induction certs arbitrary: pool) (auto simp: AddCert_def)

lemma distinct_foldl_AddCert: "distinct pool \<Longrightarrow> distinct (foldl AddCert pool certs)"
  by (induction certs arbitrary: pool) (auto simp: AddCert_def)

lemma appendCACerts_good:
  "\<forall>path\<in>set good. \<exists>bytes. ReadFile plat path = Inr bytes \<and> decodePEM plat bytes \<noteq> [] \<Longrightarrow>
   appendCACerts plat pool (good @ rest)
     = appendCACerts plat (foldl AddCert pool (concat (map (certsAt plat) good))) rest"
  by (induction good arbitrary: pool) (auto simp: AppendCertsFromPEM_def certsAt_def)

lemma newHTTPTransport_pool:
  "newHTTPTransport plat i =
     (case appendCACerts plat (case SystemCertPool plat of Inl err \<Rightarrow> [] | Inr p \<Rightarrow> p)
             (CACertPaths (opts i)) of
        Inl err \<Rightarrow> Inl err
      | Inr pool \<Rightarrow>
          Inr \<lparr> Proxy = ProxyFromEnvironment,
                DialContext = \<lparr> Timeout = 30 * Second, KeepAlive = 30 * Second, DualStack = True \<rparr>,
                MaxIdleConns = 100,
                IdleConnTimeout = 90 * Second,
                TLSHandshakeTimeout = 10 * Second,
                ResponseHeaderTimeout = 10 * Second,
                ExpectContinueTimeout = 1 * Second,
                TLSClientConfig =
                  \<lparr> RootCAs = pool, InsecureSkipVerify = (\<not> VerifyCerts (opts i)) \<rparr> \<rparr>)"
  unfolding newHTTPTransport_def NewCertPool_def Let_def
  by (cases "CACertPaths (opts i)") (simp_all split: sum.splits)

lemma appendCACerts_ok:
  "appendCACerts plat pool paths = Inr pool' \<Longrightarrow>
   pool' = foldl AddCert pool (concat (map (certsAt plat) paths))"
proof (induction paths arbitrary: pool)
  case Nil
  then show ?case by simp
next
  case (Cons path paths)
  from Cons.prems obtain bytes where rd: "ReadFile plat path = Inr bytes"
    and ok: "decodePEM plat bytes \<noteq> []"
    and rest: "appendCACerts plat (foldl AddCert pool (decodePEM plat bytes)) paths = Inr pool'"
    by (auto simp: AppendCertsFromPEM_def split: sum.splits if_splits)
  from Cons.IH[OF rest] rd show ?case by (simp add: certsAt_def)
qed

text \<open>
  C6. The trust pool starts from the system trust store, or from the empty pool when the
  system store is unavailable. Let the paths of \<^verbatim>\<open>CACertPaths\<close> start with paths whose files
  can be read and hold at least one certificate. If there is no further path, the transport is
  built and its root pool is the starting pool with the certificates of the files added in
  order, a certificate that the pool holds already not being added again: the pool holds
  exactly the certificates of the starting pool and of the files. If the next path cannot be
  read, building fails with \<^verbatim>\<open>Reading CA certificates from '<path>': <cause>\<close>; if its file
  holds no certificate, building fails with
  \<^verbatim>\<open>Adding CA certificates from '<path>': failed\<close>.
\<close>

theorem newHTTPTransport_trust_pool:
  assumes "CACertPaths (opts i) = good @ rest"
    and "\<forall>path\<in>set good. \<exists>bytes. ReadFile plat path = Inr bytes \<and> decodePEM plat bytes \<noteq> []"
  shows "(rest = [] \<longrightarrow>
           (\<exists>t. newHTTPTransport plat i = Inr t \<and>
                RootCAs (TLSClientConfig t)
                  = foldl AddCert (case SystemCertPool plat of Inl err \<Rightarrow> [] | Inr p \<Rightarrow> p)
                      (concat (map (certsAt plat) good)) \<and>
                set (RootCAs (TLSClientConfig t))
                  = set (case SystemCertPool plat of Inl err \<Rightarrow> [] | Inr p \<Rightarrow> p)
                    \<union> (\<Union>path\<in>set good. set (certsAt plat path))))
       \<and> (\<forall>bad post err. rest = bad # post \<and> ReadFile plat bad = Inl err \<longrightarrow>
            newHTTPTransport plat i
              = Inl (PlainError (''Reading CA certificates from '' @ [CHR 0x27] @ bad @ [CHR 0x27]
                                   @ '': '' @ Error_str plat err)))
       \<and> (\<forall>bad post bytes. rest = bad # post \<and> ReadFile plat bad = Inr bytes
             \<and> decodePEM plat bytes = [] \<longrightarrow>
            newHTTPTransport plat i
              = Inl (PlainError (''Adding CA certificates from '' @ [CHR 0x27] @ bad @ [CHR 0x27]
                                   @ '': failed'')))"
  unfolding newHTTPTransport_pool assms(1) appendCACerts_good[OF assms(2)]
  by (auto simp: AppendCertsFromPEM_def set_foldl_AddCert)

theorem newHTTPTransport_trust_pool_witness:
  "map_sum id (\<lambda>t. RootCAs (TLSClientConfig t))
      (newHTTPTransport plat1 (NewRegistry (no_auth\<lparr>CACertPaths := [''ca.pem'']\<rparr>)))
     = Inr [''corp-root'']
   \<and> map_sum id (\<lambda>t. RootCAs (TLSClientConfig t))
      (newHTTPTransport plat0 (NewRegistry (no_auth\<lparr>CACertPaths := [''ca.pem'', ''ca.pem'']\<rparr>)))
     = Inr [''system-root'', ''corp-root'']
   \<and> newHTTPTransport plat1 (NewRegistry (no_auth\<lparr>CACertPaths := [''ca.pem'', ''missing.pem'']\<rparr>))
     = Inl (PlainError (''Reading CA certificates from '' @ [CHR 0x27] @ ''missing.pem''
                          @ [CHR 0x27] @ '': no such file''))
   \<and> newHTTPTransport plat1 (NewRegistry (no_auth\<lparr>CACertPaths := [''ca.pem'', ''notes.txt'']\<rparr>))
     = Inl (PlainError (''Adding CA certificates from '' @ [CHR 0x27] @ ''notes.txt''
                          @ [CHR 0x27] @ '': failed''))"
proof -
  have a: "map_sum id (\<lambda>t. RootCAs (TLSClientConfig t))
      (newHTTPTransport plat1 (NewRegistry (no_auth\<lparr>CACertPaths := [''ca.pem'']\<rparr>)))
     = Inr [''corp-root'']"
  proof -
    have h1: "CACertPaths (opts (NewRegistry (no_auth\<lparr>CACertPaths := [''ca.pem'']\<rparr>)))
                = [''ca.pem''] @ []"
      by (simp add: NewRegistry_def)
    have h2: "\<forall>path\<in>set [''ca.pem''].
                \<exists>bytes. ReadFile plat1 path = Inr bytes \<and> decodePEM plat1 bytes \<noteq> []"
      by (simp add: plat1_def)
    from newHTTPTransport_trust_pool[OF h1 h2, THEN conjunct1, rule_format, OF refl]
    obtain t where
      "newHTTPTransport plat1 (NewRegistry (no_auth\<lparr>CACertPaths := [''ca.pem'']\<rparr>)) = Inr t"
      "RootCAs (TLSClientConfig t)
         = foldl AddCert (case SystemCertPool plat1 of Inl err \<Rightarrow> [] | Inr p \<Rightarrow> p)
             (concat (map (certsAt plat1) [''ca.pem'']))"
      by blast
    then show ?thesis by (simp add: certsAt_def AddCert_def plat1_def)
  qed
  have b: "map_sum id (\<lambda>t. RootCAs (TLSClientConfig t))
      (newHTTPTransport plat0 (NewRegistry (no_auth\<lparr>CACertPaths := [''ca.pem'', ''ca.pem'']\<rparr>)))
     = Inr [''system-root'', ''corp-root'']"
  proof -
    have h1: "CACertPaths (opts (NewRegistry (no_auth\<lparr>CACertPaths := [''ca.pem'', ''ca.pem'']\<rparr>)))
                = [''ca.pem'', ''ca.pem''] @ []"
      by (simp add: NewRegistry_def)
    have h2: "\<forall>path\<in>set [''ca.pem'', ''ca.pem''].
                \<exists>bytes. ReadFile plat0 path = Inr bytes \<and> decodePEM plat0 bytes \<noteq> []"
      by (simp add: plat0_def)
    from newHTTPTransport_trust_pool[OF h1 h2, THEN conjunct1, rule_format, OF refl]
    obtain t where
      "newHTTPTransport plat0 (NewRegistry (no_auth\<lparr>CACertPaths := [''ca.pem'', ''ca.pem'']\<rparr>))
         = Inr t"
      "RootCAs (TLSClientConfig t)
         = foldl AddCert (case SystemCertPool plat0 of Inl err \<Rightarrow> [] | Inr p \<Rightarrow> p)
             (concat (map (certsAt plat0) [''ca.pem'', ''ca.pem'']))"
      by blast
    then show ?thesis by (simp add: certsAt_def AddCert_def plat0_def)
  qed
  have c: "newHTTPTransport plat1
      (NewRegistry (no_auth\<lparr>CACertPaths := [''ca.pem'', ''missing.pem'']\<rparr>))
     = Inl (PlainError (''Reading CA certificates from '' @ [CHR 0x27] @ ''missing.pem''
                          @ [CHR 0x27] @ '': no such file''))"
    using newHTTPTransport_trust_pool[of
      "NewRegistry (no_auth\<lparr>CACertPaths := [''ca.pem'', ''missing.pem'']\<rparr>)"
      "[''ca.pem'']" "[''missing.pem'']" plat1]
    by (simp add: example_defs)
  have d: "newHTTPTransport plat1
      (NewRegistry (no_auth\<lparr>CACertPaths := [''ca.pem'', ''notes.txt'']\<rparr>))
     = Inl (PlainError (''Adding CA certificates from '' @ [CHR 0x27] @ ''notes.txt''
                          @ [CHR 0x27] @ '': failed''))"
    using newHTTPTransport_trust_pool[of
      "NewRegistry (no_auth\<lparr>CACertPaths := [''ca.pem'', ''notes.txt'']\<rparr>)"
      "[''ca.pem'']" "[''notes.txt'']" plat1]
    by (simp add: example_defs)
  from a b c d show ?thesis by simp
qed

text \<open>
  C7, as stated, fails on the default: this package sets none. The zero value of
  \<^verbatim>\<open>RegistryOpts\<close> has \<^verbatim>\<open>VerifyCerts\<close> false, and the transport built from it skips
  verification.
\<close>

theorem newHTTPTransport_default_counterexample:
  "VerifyCerts zero_RegistryOpts = False
   \<and> newHTTPTransport plat0 (NewRegistry zero_RegistryOpts)
       = Inr (projr (newHTTPTransport plat0 (NewRegistry zero_RegistryOpts)))
   \<and> InsecureSkipVerify
        (TLSClientConfig (projr (newHTTPTransport plat0 (NewRegistry zero_RegistryOpts)))) = True"
  by (simp add: newHTTPTransport_def example_defs)

text \<open>
  C7, amended. In the TLS configuration of every transport that is built, verification is
  skipped exactly when \<^verbatim>\<open>VerifyCerts\<close> is false, whatever the other fields of the
  configuration are, so it is enabled when \<^verbatim>\<open>VerifyCerts\<close> is true. The package takes the
  configuration as it is given and sets no default: from the zero value of
  \<^verbatim>\<open>RegistryOpts\<close> a transport is built that skips verification. The root pool is the system
  pool (or the empty pool) with the certificates of the files of \<^verbatim>\<open>CACertPaths\<close> added in
  order, a certificate that the pool holds already not being added again: it holds exactly
  the certificates of the system pool and of the files.
\<close>

theorem newHTTPTransport_tls_config:
  assumes "newHTTPTransport plat i = Inr t"
  shows "InsecureSkipVerify (TLSClientConfig t) = (\<not> VerifyCerts (opts i))
       \<and> (\<exists>t0. newHTTPTransport plat (NewRegistry zero_RegistryOpts) = Inr t0
                \<and> InsecureSkipVerify (TLSClientConfig t0))
       \<and> RootCAs (TLSClientConfig t)
           = foldl AddCert (case SystemCertPool plat of Inl err \<Rightarrow> [] | Inr p \<Rightarrow> p)
               (concat (map (certsAt plat) (CACertPaths (opts i))))
       \<and> set (RootCAs (TLSClientConfig t))
           = set (case SystemCertPool plat of Inl err \<Rightarrow> [] | Inr p \<Rightarrow> p)
             \<union> (\<Union>path\<in>set (CACertPaths (opts i)). set (certsAt plat path))"
proof -
  have z: "\<exists>t0. newHTTPTransport plat (NewRegistry zero_RegistryOpts) = Inr t0
                \<and> InsecureSkipVerify (TLSClientConfig t0)"
    by (simp add: newHTTPTransport_def NewRegistry_def zero_RegistryOpts_def)
  have r: "InsecureSkipVerify (TLSClientConfig t) = (\<not> VerifyCerts (opts i))
       \<and> RootCAs (TLSClientConfig t)
           = foldl AddCert (case SystemCertPool plat of Inl err \<Rightarrow> [] | Inr p \<Rightarrow> p)
               (concat (map (certsAt plat) (CACertPaths (opts i))))"
    using assms unfolding newHTTPTransport_pool
    by (auto split: sum.splits dest: appendCACerts_ok)
  then have "set (RootCAs (TLSClientConfig t))
           = set (case SystemCertPool plat of Inl err \<Rightarrow> [] | Inr p \<Rightarrow> p)
             \<union> (\<Union>path\<in>set (CACertPaths (opts i)). set (certsAt plat path))"
    by (simp add: set_foldl_AddCert)
  with z r show ?thesis by simp
qed

theorem newHTTPTransport_tls_config_witness:
  "newHTTPTransport plat0 reg0 = Inr (projr (newHTTPTransport plat0 reg0))
   \<and> InsecureSkipVerify (TLSClientConfig (projr (newHTTPTransport plat0 reg0))) = False
   \<and> RootCAs (TLSClientConfig (projr (newHTTPTransport plat0 reg0)))
       = [''system-root'', ''corp-root'']
   \<and> InsecureSkipVerify (TLSClientConfig (projr (newHTTPTransport plat0
         (NewRegistry (no_auth\<lparr>VerifyCerts := False\<rparr>))))) = True"
proof -
  have t: "newHTTPTransport plat0 reg0 = Inr (projr (newHTTPTransport plat0 reg0))"
    by (simp add: newHTTPTransport_def AppendCertsFromPEM_def AddCert_def example_defs)
  have t': "newHTTPTransport plat0 (NewRegistry (no_auth\<lparr>VerifyCerts := False\<rparr>))
      = Inr (projr (newHTTPTransport plat0 (NewRegistry (no_auth\<lparr>VerifyCerts := False\<rparr>))))"
    by (simp add: newHTTPTransport_def example_defs)
  from newHTTPTransport_tls_config[OF t] newHTTPTransport_tls_config[OF t'] t
  show ?thesis by (simp add: certsAt_def AddCert_def example_defs)
qed

section \<open>Credential resolution\<close>

text \<open>
  C1. Credential resolution follows the precedence username, token, anonymous, default
  chain: a non-empty username gives Basic(username, password); otherwise a non-empty token
  gives Bearer(token); otherwise the anonymous flag gives Anonymous; otherwise the answer is
  that of the default credential chain for the registry.
\<close>

theorem resolve_precedence:
  "(Username k \<noteq> [] \<longrightarrow>
      customRegistryKeychain_Resolve plat (CustomRegistryKeychain k) res
        = Inr (Basic (Username k) (Password k)))
   \<and> (Username k = [] \<and> Token k \<noteq> [] \<longrightarrow>
      customRegistryKeychain_Resolve plat (CustomRegistryKeychain k) res = Inr (Bearer (Token k)))
   \<and> (Username k = [] \<and> Token k = [] \<and> Anon k \<longrightarrow>
      customRegistryKeychain_Resolve plat (CustomRegistryKeychain k) res = Inr Anonymous)
   \<and> (Username k = [] \<and> Token k = [] \<and> \<not> Anon k \<longrightarrow>
      customRegistryKeychain_Resolve plat (CustomRegistryKeychain k) res
        = DefaultKeychain_Resolve plat res)"
  by simp

theorem resolve_precedence_witness:
  "customRegistryKeychain_Resolve plat1
      (CustomRegistryKeychain (no_auth\<lparr>Username := ''u'', Password := ''p'', Token := ''t'',
                                        Anon := True\<rparr>)) host0 = Inr (Basic ''u'' ''p'')
   \<and> customRegistryKeychain_Resolve plat1
      (CustomRegistryKeychain (no_auth\<lparr>Password := ''p'', Token := ''t'', Anon := True\<rparr>)) host0
        = Inr (Bearer ''t'')
   \<and> customRegistryKeychain_Resolve plat1
      (CustomRegistryKeychain (no_auth\<lparr>Password := ''p'', Anon := True\<rparr>)) host0 = Inr Anonymous
   \<and> customRegistryKeychain_Resolve plat1
      (CustomRegistryKeychain (no_auth\<lparr>Password := ''p''\<rparr>)) host0
        = Inr (ChainAuth ''registry.example'')"
  using
    resolve_precedence[of "no_auth\<lparr>Username := ''u'', Password := ''p'', Token := ''t'',
                                    Anon := True\<rparr>" plat1 host0]
    resolve_precedence[of "no_auth\<lparr>Password := ''p'', Token := ''t'', Anon := True\<rparr>" plat1 host0]
    resolve_precedence[of "no_auth\<lparr>Password := ''p'', Anon := True\<rparr>" plat1 host0]
    resolve_precedence[of "no_auth\<lparr>Password := ''p''\<rparr>" plat1 host0]
  by (simp add: no_auth_def plat1_def host0_def)

section \<open>The facade\<close>

lemma imageOpts_built:
  "newHTTPTransport plat i = Inr t \<Longrightarrow>
   imageOpts plat i = Inr [WithTransport t, WithAuthFromKeychain (registryKeychain i)]"
  by (simp add: imageOpts_def)

lemma Registry_Generic_built:
  "newHTTPTransport plat i = Inr t \<Longrightarrow>
   Registry_Generic plat lib i ref w =
     (case remote_Get lib ref [WithTransport t, WithAuthFromKeychain (registryKeychain i)] w of
        (res, w') \<Rightarrow> (map_sum id Descriptor res, w', [Invoked (err_of res)]))"
  by (auto simp: Registry_Generic_def imageOpts_built err_of_def split: prod.splits sum.splits)

lemma Registry_Image_built:
  "newHTTPTransport plat i = Inr t \<Longrightarrow>
   Registry_Image plat lib i ref w =
     (case remote_Image lib ref [WithTransport t, WithAuthFromKeychain (registryKeychain i)] w of
        (res, w') \<Rightarrow> (res, w', [Invoked (err_of res)]))"
  by (simp add: Registry_Image_def imageOpts_built)

lemma Registry_Index_built:
  "newHTTPTransport plat i = Inr t \<Longrightarrow>
   Registry_Index plat lib i ref w =
     (case remote_Index lib ref [WithTransport t, WithAuthFromKeychain (registryKeychain i)] w of
        (res, w') \<Rightarrow> (res, w', [Invoked (err_of res)]))"
  by (simp add: Registry_Index_def imageOpts_built)

lemma err_of_map_sum: "err_of (map_sum id f res) = err_of res"
  by (cases res) (simp_all add: err_of_def)

text \<open>
  C4, as stated, fails for \<^verbatim>\<open>Generic\<close> (getDescriptor): with no credentials configured and
  a default chain that fails with \<^verbatim>\<open>no credentials\<close>, the transport is built, credential
  resolution fails, and the error that \<^verbatim>\<open>Generic\<close> returns is the one the protocol library
  reports, without the prefix \<^verbatim>\<open>Getting auth details: \<close>.
\<close>

theorem auth_failure_prefix_counterexample:
  "newHTTPTransport plat0 (NewRegistry no_auth) \<noteq> Inl (PlainError ''no credentials'')
   \<and> customRegistryKeychain_Resolve plat0 (registryKeychain (NewRegistry no_auth))
       (Registry (Context ref0)) = Inl (PlainError ''no credentials'')
   \<and> fst (Registry_Generic plat0 (lib0 plat0) (NewRegistry no_auth) ref0 0)
       = Inl (PlainError ''no credentials'')
   \<and> fst (Registry_Generic plat0 (lib0 plat0) (NewRegistry no_auth) ref0 0)
       \<noteq> Inl (PlainError (''Getting auth details: '' @ Error_str plat0 (PlainError ''no credentials'')))"
  by (simp add: Registry_Generic_def imageOpts_def newHTTPTransport_def NewRegistry_def
        no_auth_def plat0_def lib0_def ref0_def registryKeychain_def)

text \<open>
  C4, amended. Once the transport is built, \<^verbatim>\<open>WriteImage\<close>, \<^verbatim>\<open>WriteIndex\<close> and
  \<^verbatim>\<open>ListTags\<close> whose credential resolution fails return
  \<^verbatim>\<open>Getting auth details: <cause>\<close> without any call into the protocol library and without
  any sleep, the world being left as it was. \<^verbatim>\<open>Generic\<close>, \<^verbatim>\<open>Image\<close> and \<^verbatim>\<open>Index\<close> do not
  resolve credentials themselves: they hand the keychain to the protocol library and return
  the error it reports as it is.
\<close>

theorem auth_failure_fails_fast:
  assumes "newHTTPTransport plat i = Inr t"
    and "customRegistryKeychain_Resolve plat (registryKeychain i) (Registry (Context ref)) = Inl err"
  shows "Registry_WriteImage plat lib i ref img w
           = (Some (PlainError (''Getting auth details: '' @ Error_str plat err)), w, [])
       \<and> Registry_WriteIndex plat lib i ref idx w
           = (Some (PlainError (''Getting auth details: '' @ Error_str plat err)), w, [])
       \<and> Registry_ListTags plat lib i (Context ref) w
           = (Inl (PlainError (''Getting auth details: '' @ Error_str plat err)), w, [])
       \<and> err_of (fst (Registry_Generic plat lib i ref w))
           = err_of (fst (remote_Get lib ref
                            [WithTransport t, WithAuthFromKeychain (registryKeychain i)] w))
       \<and> fst (Registry_Image plat lib i ref w)
           = fst (remote_Image lib ref
                    [WithTransport t, WithAuthFromKeychain (registryKeychain i)] w)
       \<and> fst (Registry_Index plat lib i ref w)
           = fst (remote_Index lib ref
                    [WithTransport t, WithAuthFromKeychain (registryKeychain i)] w)"
  using assms
  by (simp add: Registry_WriteImage_def Registry_WriteIndex_def Registry_ListTags_def Errorf_def
        Registry_Generic_built Registry_Image_built Registry_Index_built err_of_map_sum
        split: prod.splits)

theorem auth_failure_fails_fast_witness:
  "newHTTPTransport plat0 (NewRegistry no_auth)
     = Inr (projr (newHTTPTransport plat0 (NewRegistry no_auth)))
   \<and> customRegistryKeychain_Resolve plat0 (registryKeychain (NewRegistry no_auth))
       (Registry (Context ref0)) = Inl (PlainError ''no credentials'')
   \<and> Registry_WriteImage plat0 (lib0 plat0) (NewRegistry no_auth) ref0 (V1Image ''image'') 0
       = (Some (PlainError ''Getting auth details: no credentials''), 0, [])
   \<and> Registry_WriteIndex plat0 (lib0 plat0) (NewRegistry no_auth) ref0 (V1ImageIndex ''index'') 0
       = (Some (PlainError ''Getting auth details: no credentials''), 0, [])
   \<and> Registry_ListTags plat0 (lib0 plat0) (NewRegistry no_auth) (Context ref0) 0
       = (Inl (PlainError ''Getting auth details: no credentials''), 0, [])"
proof -
  have t: "newHTTPTransport plat0 (NewRegistry no_auth)
     = Inr (projr (newHTTPTransport plat0 (NewRegistry no_auth)))"
    by (simp add: newHTTPTransport_def example_defs)
  have a: "customRegistryKeychain_Resolve plat0 (registryKeychain (NewRegistry no_auth))
       (Registry (Context ref0)) = Inl (PlainError ''no credentials'')"
    by (simp add: example_defs)
  from auth_failure_fails_fast[OF t a, of "lib0 plat0" "V1Image ''image''" 0 "V1ImageIndex ''index''"]
    t a
  show ?thesis by simp
qed

text \<open>
  C8. Once the transport is built and the credentials are resolved, \<^verbatim>\<open>WriteImage\<close> and
  \<^verbatim>\<open>WriteIndex\<close> are the retry policy applied to the library's write, a final failure being
  returned as \<^verbatim>\<open>Writing image: <cause>\<close> and \<^verbatim>\<open>Writing image index: <cause>\<close>; \<^verbatim>\<open>Generic\<close>,
  \<^verbatim>\<open>Image\<close>, \<^verbatim>\<open>Index\<close> and \<^verbatim>\<open>ListTags\<close> call the library exactly once, never sleep, and
  return what that one call returned.
\<close>

theorem retry_wraps_writes_only:
  assumes "newHTTPTransport plat i = Inr t"
    and "customRegistryKeychain_Resolve plat (registryKeychain i) (Registry (Context ref)) = Inr auth"
  shows "Registry_WriteImage plat lib i ref img w
           = (case Registry_retry plat i (remote_Write lib ref img [WithAuth auth, WithTransport t]) w of
                (r, w', evs) \<Rightarrow>
                  (map_option (\<lambda>cause. PlainError (''Writing image: '' @ Error_str plat cause)) r,
                   w', evs))
       \<and> Registry_WriteIndex plat lib i ref idx w
           = (case Registry_retry plat i
                     (remote_WriteIndex lib ref idx [WithAuth auth, WithTransport t]) w of
                (r, w', evs) \<Rightarrow>
                  (map_option (\<lambda>cause. PlainError (''Writing image index: '' @ Error_str plat cause)) r,
                   w', evs))
       \<and> Registry_Generic plat lib i ref w
           = (case remote_Get lib ref [WithTransport t, WithAuthFromKeychain (registryKeychain i)] w of
                (res, w') \<Rightarrow> (map_sum id Descriptor res, w', [Invoked (err_of res)]))
       \<and> Registry_Image plat lib i ref w
           = (case remote_Image lib ref [WithTransport t, WithAuthFromKeychain (registryKeychain i)] w of
                (res, w') \<Rightarrow> (res, w', [Invoked (err_of res)]))
       \<and> Registry_Index plat lib i ref w
           = (case remote_Index lib ref [WithTransport t, WithAuthFromKeychain (registryKeychain i)] w of
                (res, w') \<Rightarrow> (res, w', [Invoked (err_of res)]))
       \<and> Registry_ListTags plat lib i (Context ref) w
           = (case remote_List lib (Context ref) [WithAuth auth, WithTransport t] w of
                (res, w') \<Rightarrow> (res, w', [Invoked (err_of res)]))"
  using assms
  by (auto simp: Registry_WriteImage_def Registry_WriteIndex_def Registry_ListTags_def Errorf_def
        Registry_Generic_built Registry_Image_built Registry_Index_built
        split: prod.splits option.splits)

theorem retry_wraps_writes_only_witness:
  "newHTTPTransport plat0 reg0 = Inr (projr (newHTTPTransport plat0 reg0))
   \<and> customRegistryKeychain_Resolve plat0 (registryKeychain reg0) (Registry (Context ref0))
       = Inr (Basic ''u'' ''p'')
   \<and> Registry_WriteImage plat0 (lib0 plat0) reg0 ref0 (V1Image ''image'') 0
       = (Some (PlainError ''Writing image: Retried 5 times: connection reset''), 5,
          [Invoked (Some reset), Slept 1000000000, Invoked (Some reset), Slept 1000000000,
           Invoked (Some reset), Slept 1000000000, Invoked (Some reset), Slept 1000000000,
           Invoked (Some reset), Slept 1000000000])
   \<and> Registry_ListTags plat0 (lib0 plat0) reg0 (Context ref0) 0
       = (Inl reset, 1, [Invoked (Some reset)])"
proof -
  have t: "newHTTPTransport plat0 reg0 = Inr (projr (newHTTPTransport plat0 reg0))"
    by (simp add: newHTTPTransport_def AppendCertsFromPEM_def AddCert_def example_defs)
  have a: "customRegistryKeychain_Resolve plat0 (registryKeychain reg0) (Registry (Context ref0))
       = Inr (Basic ''u'' ''p'')"
    by (simp add: example_defs)
  have r: "Registry_retry plat0 reg0 (\<lambda>w. (Some reset, Suc w)) 0
       = (Some (PlainError ''Retried 5 times: connection reset''), 5,
          [Invoked (Some reset), Slept 1000000000, Invoked (Some reset), Slept 1000000000,
           Invoked (Some reset), Slept 1000000000, Invoked (Some reset), Slept 1000000000,
           Invoked (Some reset), Slept 1000000000])"
    by (simp add: Registry_retry_def retry_loop.simps Errorf_def Second_def reset_def)
  from retry_wraps_writes_only[OF t a, of "lib0 plat0" "V1Image ''image''" 0 "V1ImageIndex ''index''"]
    t a r
  show ?thesis by (simp add: lib0_def err_of_def)
qed

end
